theory Spec2Isabelle
  imports Main "HOL-Library.Char_ord"
begin

section \<open>JavaScript values\<close>

text \<open>
  The library is JavaScript. Its functions receive arbitrary values, test them with
  \<^verbatim>\<open>typeof\<close> and \<^verbatim>\<open>isFinite\<close>, and throw \<^verbatim>\<open>Error\<close> objects.
  A number is either finite or one of \<^verbatim>\<open>NaN\<close>, \<^verbatim>\<open>Infinity\<close>, \<^verbatim>\<open>-Infinity\<close>.
  Timestamps are integer milliseconds (\<^verbatim>\<open>Date.now()\<close>), so a finite number carries an
  \<^typ>\<open>int\<close>; the rounding of IEEE doubles is outside this model. A string is a
  \<^typ>\<open>string\<close>, one \<^typ>\<open>char\<close> for each code unit.
\<close>

datatype jsnum = Num int | NaN | PosInfinity | NegInfinity

datatype jsval =
    JUndefined
  | JNull
  | JBool bool
  | JNum jsnum
  | JStr string
  | JObject

datatype js_error = Error string

text \<open>\<^verbatim>\<open>isFinite(x)\<close> for \<^verbatim>\<open>x\<close> of type number.\<close>

fun isFinite :: "jsnum \<Rightarrow> bool" where
  "isFinite (Num _) = True"
| "isFinite _ = False"

text \<open>The relational operators on numbers: every comparison with \<^verbatim>\<open>NaN\<close> is false.\<close>

fun js_lt :: "jsnum \<Rightarrow> jsnum \<Rightarrow> bool" where
  "js_lt NaN _ = False"
| "js_lt _ NaN = False"
| "js_lt (Num a) (Num b) = (a < b)"
| "js_lt PosInfinity _ = False"
| "js_lt _ NegInfinity = False"
| "js_lt NegInfinity _ = True"
| "js_lt _ PosInfinity = True"

definition js_gt :: "jsnum \<Rightarrow> jsnum \<Rightarrow> bool" where
  "js_gt a b = js_lt b a"

fun js_le :: "jsnum \<Rightarrow> jsnum \<Rightarrow> bool" where
  "js_le NaN _ = False"
| "js_le _ NaN = False"
| "js_le (Num a) (Num b) = (a \<le> b)"
| "js_le NegInfinity _ = True"
| "js_le _ PosInfinity = True"
| "js_le PosInfinity _ = False"
| "js_le _ NegInfinity = False"

text \<open>\<^verbatim>\<open>typeof now !== 'number' || !isFinite(now)\<close>, negated.\<close>

fun is_finite_number :: "jsval \<Rightarrow> bool" where
  "is_finite_number (JNum n) = isFinite n"
| "is_finite_number _ = False"


section \<open>Records (meta.js)\<close>

text \<open>
  \<^verbatim>\<open>EphemeralMeta\<close>: an object with the keys \<^verbatim>\<open>id\<close>, \<^verbatim>\<open>createdAt\<close>,
  \<^verbatim>\<open>updatedAt\<close>, \<^verbatim>\<open>unlockAt\<close>, \<^verbatim>\<open>expiresAt\<close>. A key that is not set reads as
  \<^verbatim>\<open>undefined\<close>. Nothing is checked when the object is built, so every field holds any
  value. The argument \<^verbatim>\<open>meta\<close> of the predicates is \<^verbatim>\<open>EphemeralMeta | null\<close>:
  \<^term>\<open>None\<close> is \<^verbatim>\<open>null\<close>/\<^verbatim>\<open>undefined\<close>.
\<close>

record meta =
  meta_id :: jsval
  createdAt :: jsval
  updatedAt :: jsval
  unlockAt :: jsval
  expiresAt :: jsval

text \<open>
  \<^verbatim>\<open>const MAX_TIMESTAMP = Date.now() + 100 * 365 * 24 * 60 * 60 * 1000\<close> is evaluated once,
  when the module is loaded; \<open>loadTime\<close> is the reading of \<^verbatim>\<open>Date.now()\<close> at that moment.
\<close>

definition MAX_TIMESTAMP :: "int \<Rightarrow> int" where
  "MAX_TIMESTAMP loadTime = loadTime + 100 * 365 * 24 * 60 * 60 * 1000"

text \<open>\<^verbatim>\<open>validateTimestamp(ts, fieldName, min = 0, max = MAX_TIMESTAMP)\<close>; the field name is unused.\<close>

definition validateTimestamp :: "jsval \<Rightarrow> jsnum \<Rightarrow> jsnum \<Rightarrow> bool" where
  "validateTimestamp ts mn mx =
     (case ts of
        JNum n \<Rightarrow>
          if \<not> isFinite n then False
          else if js_lt n mn \<or> js_gt n mx then False
          else True
      | _ \<Rightarrow> False)"

definition isExpired :: "int \<Rightarrow> meta option \<Rightarrow> jsval \<Rightarrow> js_error + bool" where
  "isExpired loadTime meta now =
     (case meta of
        None \<Rightarrow> Inr True
      | Some m \<Rightarrow>
          if \<not> is_finite_number now
          then Inl (Error ''[ephemeral] isExpired: now is required and must be finite'')
          else (case (expiresAt m, now) of
                  (JNum e, JNum n) \<Rightarrow>
                    if \<not> validateTimestamp (expiresAt m) (Num 0) (Num (MAX_TIMESTAMP loadTime))
                    then Inr False
                    else Inr (js_le e n)
                | _ \<Rightarrow> Inr False))"

definition isUnlocked :: "int \<Rightarrow> meta option \<Rightarrow> jsval \<Rightarrow> js_error + bool" where
  "isUnlocked loadTime meta now =
     (case meta of
        None \<Rightarrow> Inr False
      | Some m \<Rightarrow>
          if \<not> is_finite_number now
          then Inl (Error ''[ephemeral] isUnlocked: now is required and must be finite'')
          else (case (unlockAt m, now) of
                  (JNum u, JNum n) \<Rightarrow>
                    if \<not> validateTimestamp (unlockAt m) (Num 0) (Num (MAX_TIMESTAMP loadTime))
                    then Inr True
                    else Inr (js_le u n)
                | _ \<Rightarrow> Inr True))"


section \<open>One garbage-collection run (gc.js)\<close>

text \<open>
  What the call \<^verbatim>\<open>ctx.listMetas()\<close> gives back: a promise that resolves with an array or
  rejects, an async iterable that yields the items or throws on the way, or a value that
  is neither. An entry of the array may be \<^verbatim>\<open>null\<close>.
\<close>

datatype list_result =
    Resolved "meta option list"
  | Iterated "meta option list"
  | Rejected js_error
  | NotListable

text \<open>
  \<^verbatim>\<open>normalizeList\<close>: awaits the promise or drains the iterable into an array; every
  failure is logged and thrown again.
\<close>

fun normalizeList :: "list_result \<Rightarrow> js_error + meta option list" where
  "normalizeList (Resolved ms) = Inr ms"
| "normalizeList (Iterated ms) = Inr ms"
| "normalizeList (Rejected e) = Inl e"
| "normalizeList NotListable =
     Inl (Error ''[ephemeral] listMetas must return Promise<Array> or AsyncIterable'')"

text \<open>
  The context of a run over a backend with states of type \<open>'s\<close>. \<^verbatim>\<open>onExpire\<close> is
  optional; a call either resolves (\<^term>\<open>None\<close>) or rejects with an error, and leaves the
  backend in a new state either way.
\<close>

record 's gc_ctx =
  listMetas :: "'s \<Rightarrow> list_result \<times> 's"
  onExpire :: "(meta \<Rightarrow> 's \<Rightarrow> js_error option \<times> 's) option"

text \<open>
  The \<^verbatim>\<open>for (const meta of metas)\<close> loop of \<^verbatim>\<open>runEphemeralGC\<close>. It carries the counter
  \<^verbatim>\<open>expired\<close>, the backend state, and the list \<open>calls\<close> of the records handed to
  \<^verbatim>\<open>ctx.onExpire\<close> so far. An exception (from \<^verbatim>\<open>isExpired\<close> or from the awaited
  callback) leaves the loop and the function at once: there is no \<^verbatim>\<open>try\<close> around the body.
\<close>

fun gc_loop ::
  "int \<Rightarrow> (meta \<Rightarrow> 's \<Rightarrow> js_error option \<times> 's) option \<Rightarrow> jsval \<Rightarrow> meta option list
     \<Rightarrow> nat \<Rightarrow> meta list \<Rightarrow> 's \<Rightarrow> (js_error + nat) \<times> meta list \<times> 's" where
  "gc_loop loadTime cb now [] expired calls s = (Inr expired, calls, s)"
| "gc_loop loadTime cb now (None # metas) expired calls s =
     gc_loop loadTime cb now metas expired calls s"
| "gc_loop loadTime cb now (Some m # metas) expired calls s =
     (case isExpired loadTime (Some m) now of
        Inl e \<Rightarrow> (Inl e, calls, s)
      | Inr False \<Rightarrow> gc_loop loadTime cb now metas expired calls s
      | Inr True \<Rightarrow>
          (case cb of
             None \<Rightarrow> gc_loop loadTime cb now metas (expired + 1) calls s
           | Some f \<Rightarrow>
               (case f m s of
                  (Some e, s') \<Rightarrow> (Inl e, calls @ [m], s')
                | (None, s') \<Rightarrow> gc_loop loadTime cb now metas (expired + 1) (calls @ [m]) s')))"

text \<open>
  \<^verbatim>\<open>runEphemeralGC(ctx, { nowFn })\<close>. \<open>now\<close> is the value \<^verbatim>\<open>nowFn()\<close> returned, read once
  before the records are listed. The result is the outcome (the thrown error, or the
  count \<^verbatim>\<open>expired\<close> of the returned object), the records \<^verbatim>\<open>onExpire\<close> was called with, and
  the backend state.
\<close>

definition runEphemeralGC ::
  "int \<Rightarrow> 's gc_ctx \<Rightarrow> jsval \<Rightarrow> 's \<Rightarrow> (js_error + nat) \<times> meta list \<times> 's" where
  "runEphemeralGC loadTime ctx now s =
     (case listMetas ctx s of
        (r, s') \<Rightarrow>
          (case normalizeList r of
             Inl e \<Rightarrow> (Inl e, [], s')
           | Inr metas \<Rightarrow> gc_loop loadTime (onExpire ctx) now metas 0 [] s'))"

text \<open>The entries of a record list that are not \<^verbatim>\<open>null\<close>, in order.\<close>

fun present :: "meta option list \<Rightarrow> meta list" where
  "present [] = []"
| "present (None # ms) = present ms"
| "present (Some m # ms) = m # present ms"

text \<open>
  In the words of the specification, a record "whose \<^verbatim>\<open>expiresAt\<close> is at or before the
  captured now": it has a numeric \<^verbatim>\<open>expiresAt\<close> that is not after the moment \<open>n\<close>.
\<close>

fun expiresAt_at_or_before :: "int \<Rightarrow> meta \<Rightarrow> bool" where
  "expiresAt_at_or_before n m = (case expiresAt m of JNum (Num e) \<Rightarrow> e \<le> n | _ \<Rightarrow> False)"

text \<open>The same, with \<^verbatim>\<open>expiresAt\<close> inside the bounds \<open>0 \<dots> MAX_TIMESTAMP\<close> as well.\<close>

fun due :: "int \<Rightarrow> int \<Rightarrow> meta \<Rightarrow> bool" where
  "due loadTime n m =
     (case expiresAt m of
        JNum (Num e) \<Rightarrow> 0 \<le> e \<and> e \<le> MAX_TIMESTAMP loadTime \<and> e \<le> n
      | _ \<Rightarrow> False)"

text \<open>A finite \<^verbatim>\<open>expiresAt\<close> above the bound.\<close>

fun beyond_bound :: "int \<Rightarrow> meta \<Rightarrow> bool" where
  "beyond_bound loadTime m =
     (case expiresAt m of JNum (Num e) \<Rightarrow> MAX_TIMESTAMP loadTime < e | _ \<Rightarrow> False)"

fun beyond_entry :: "int \<Rightarrow> meta option \<Rightarrow> bool" where
  "beyond_entry loadTime None = False"
| "beyond_entry loadTime (Some m) = beyond_bound loadTime m"


text \<open>A listing with the entries that are \<^const>\<open>beyond_entry\<close> taken out.\<close>

fun drop_beyond :: "int \<Rightarrow> list_result \<Rightarrow> list_result" where
  "drop_beyond loadTime (Resolved ms) = Resolved (filter (\<lambda>x. \<not> beyond_entry loadTime x) ms)"
| "drop_beyond loadTime (Iterated ms) = Iterated (filter (\<lambda>x. \<not> beyond_entry loadTime x) ms)"
| "drop_beyond loadTime r = r"


section \<open>The monotonic clock (time.js)\<close>

text \<open>
  The closure returned by \<^verbatim>\<open>createMonotonicNow\<close> owns \<^verbatim>\<open>last\<close> and the constants
  \<^verbatim>\<open>startTime\<close>, \<^verbatim>\<open>maxBackwardsMs\<close>, \<^verbatim>\<open>maxForwardMs\<close>. The options are optional
  (\<^verbatim>\<open>??\<close> takes the default); \<open>t0\<close> is the reading of \<^verbatim>\<open>Date.now()\<close> at creation.
\<close>

record clock =
  maxBackwardsMs :: int
  maxForwardMs :: int
  last :: int
  startTime :: int

definition createMonotonicNow :: "int option \<Rightarrow> int option \<Rightarrow> int \<Rightarrow> clock" where
  "createMonotonicNow optBackwards optForward t0 =
     \<lparr> maxBackwardsMs = (case optBackwards of None \<Rightarrow> 1000 | Some b \<Rightarrow> b),
       maxForwardMs = (case optForward of None \<Rightarrow> 60 * 60 * 1000 | Some f \<Rightarrow> f),
       last = t0,
       startTime = t0 \<rparr>"

text \<open>
  One call of the closure \<^verbatim>\<open>now()\<close>; \<open>current\<close> is the reading of \<^verbatim>\<open>Date.now()\<close>
  in this call. The value returned and the clock afterwards.
\<close>

definition clock_now :: "int \<Rightarrow> clock \<Rightarrow> int \<times> clock" where
  "clock_now current c =
     (if current > startTime c + maxForwardMs c then
        (let l = min current (startTime c + maxForwardMs c) in (l, c\<lparr>last := l\<rparr>))
      else if current + maxBackwardsMs c < last c then (last c, c)
      else if current \<ge> last c then (current, c\<lparr>last := current\<rparr>)
      else (last c, c))"

text \<open>The values returned by successive calls, one for each wall-clock reading.\<close>

fun clock_run :: "int list \<Rightarrow> clock \<Rightarrow> int list" where
  "clock_run [] c = []"
| "clock_run (r # rs) c = (case clock_now r c of (v, c') \<Rightarrow> v # clock_run rs c')"


section \<open>The automatic scheduler (auto-gc.js)\<close>

text \<open>
  The closure state of \<^verbatim>\<open>createEphemeralAutoGC\<close>: the timer handle (\<^verbatim>\<open>null\<close> when there
  is none; the handle is identified with the interval it was set with) and the counter
  \<^verbatim>\<open>consecutiveErrors\<close>. What \<^verbatim>\<open>console.warn\<close> and \<^verbatim>\<open>console.error\<close> print is kept in
  \<open>diagnostics\<close>.
\<close>

datatype sched_diag =
    AutoGcError nat nat js_error
  | TooManyErrors

record auto_gc =
  timer :: "nat option"
  consecutiveErrors :: nat
  intervalMs :: nat
  diagnostics :: "sched_diag list"

definition MAX_CONSECUTIVE_ERRORS :: nat where
  "MAX_CONSECUTIVE_ERRORS = 5"


definition stop :: "auto_gc \<Rightarrow> auto_gc" where
  "stop a = (if timer a = None then a else a\<lparr>timer := None\<rparr>)"



text \<open>
  A settled promise together with the state its handlers run in: \<^term>\<open>Inl\<close> is a
  rejection. \<^verbatim>\<open>p.then(f)\<close> runs \<open>f\<close> on a fulfilled promise and passes a rejection on;
  \<^verbatim>\<open>p.catch(g)\<close> runs \<open>g\<close> on a rejection and passes a value on. A handler that throws
  rejects the promise it produces.
\<close>

definition promise_then ::
  "('a \<Rightarrow> 's \<Rightarrow> (js_error + 'b) \<times> 's) \<Rightarrow> (js_error + 'a) \<times> 's \<Rightarrow> (js_error + 'b) \<times> 's" where
  "promise_then f p = (case p of (Inr v, s) \<Rightarrow> f v s | (Inl e, s) \<Rightarrow> (Inl e, s))"

definition promise_catch ::
  "(js_error \<Rightarrow> 's \<Rightarrow> (js_error + 'a) \<times> 's) \<Rightarrow> (js_error + 'a) \<times> 's \<Rightarrow> (js_error + 'a) \<times> 's" where
  "promise_catch g p = (case p of (Inl e, s) \<Rightarrow> g e s | (Inr v, s) \<Rightarrow> (Inr v, s))"

text \<open>The two handlers of \<^verbatim>\<open>tick\<close>.\<close>

definition tick_fulfilled :: "nat \<Rightarrow> auto_gc \<Rightarrow> (js_error + unit) \<times> auto_gc" where
  "tick_fulfilled r a = (Inr (), a\<lparr>consecutiveErrors := 0\<rparr>)"

definition tick_rejected :: "js_error \<Rightarrow> auto_gc \<Rightarrow> (js_error + unit) \<times> auto_gc" where
  "tick_rejected err a =
     (let a1 = a\<lparr>consecutiveErrors := consecutiveErrors a + 1\<rparr>;
          a2 = a1\<lparr>diagnostics := diagnostics a1 @
                 [AutoGcError (consecutiveErrors a1) MAX_CONSECUTIVE_ERRORS err]\<rparr>
      in if consecutiveErrors a2 \<ge> MAX_CONSECUTIVE_ERRORS
         then (Inr (), stop (a2\<lparr>diagnostics := diagnostics a2 @ [TooManyErrors]\<rparr>))
         else (Inr (), a2))"

text \<open>
  \<^verbatim>\<open>tick\<close>, for a run of \<^verbatim>\<open>runEphemeralGC\<close> that settled with \<open>outcome\<close>: the promise of
  \<^verbatim>\<open>runEphemeralGC(...).then(...).catch(...)\<close> and the scheduler afterwards.
\<close>

definition tick :: "js_error + nat \<Rightarrow> auto_gc \<Rightarrow> (js_error + unit) \<times> auto_gc" where
  "tick outcome a = promise_catch tick_rejected (promise_then tick_fulfilled (outcome, a))"




section \<open>The Hyperdrive adapter (hyperdrive-adapter.js)\<close>

text \<open>\<^verbatim>\<open>s.includes(sub)\<close>: \<open>sub\<close> occurs in \<open>s\<close> as a contiguous run.\<close>

fun str_includes :: "string \<Rightarrow> string \<Rightarrow> bool" where
  "str_includes [] sub = (sub = [])"
| "str_includes (c # cs) sub = (take (length sub) (c # cs) = sub \<or> str_includes cs sub)"

definition sanitizePathComponent :: "jsval \<Rightarrow> string option" where
  "sanitizePathComponent component =
     (case component of
        JStr s \<Rightarrow>
          if str_includes s ''..'' \<or> str_includes s ''/'' \<or> str_includes s [CHR 0x5C] then None
          else if length s = 0 \<or> length s > 255 then None
          else Some s
      | _ \<Rightarrow> None)"

text \<open>The character class \<^verbatim>\<open>[a-zA-Z0-9_-]\<close> and the test of \<^verbatim>\<open>/^[a-zA-Z0-9_-]+$/\<close>.\<close>

definition id_char :: "char \<Rightarrow> bool" where
  "id_char c =
     ((CHR ''a'' \<le> c \<and> c \<le> CHR ''z'') \<or> (CHR ''A'' \<le> c \<and> c \<le> CHR ''Z'') \<or>
      (CHR ''0'' \<le> c \<and> c \<le> CHR ''9'') \<or> c = CHR ''_'' \<or> c = CHR ''-'')"

definition id_regex_test :: "string \<Rightarrow> bool" where
  "id_regex_test s = (s \<noteq> [] \<and> list_all id_char s)"

definition validateMetaId :: "jsval \<Rightarrow> bool" where
  "validateMetaId v =
     (case v of
        JStr s \<Rightarrow>
          if length s = 0 \<or> length s > 255 then False
          else if \<not> id_regex_test s then False
          else True
      | _ \<Rightarrow> False)"

text \<open>The 64 characters of the class, written out as the specification names them.\<close>

definition id_alphabet :: "char set" where
  "id_alphabet = set ''ABCDEFGHIJKLMNOPQRSTUVWXYZabcdefghijklmnopqrstuvwxyz0123456789_-''"

text \<open>White space that \<^verbatim>\<open>\s\<close> matches among the 8-bit characters.\<close>

definition whitespace :: "char set" where
  "whitespace = {CHR 0x20, CHR 0x09, CHR 0x0A, CHR 0x0B, CHR 0x0C, CHR 0x0D, CHR 0xA0}"

text \<open>
  The drive is an external object. Its asynchronous methods are taken as functions on a
  drive state \<open>'d\<close>: \<^verbatim>\<open>put\<close> and \<^verbatim>\<open>del\<close> resolve (\<^term>\<open>None\<close>) or reject,
  \<^verbatim>\<open>exists\<close> resolves with a boolean or rejects, and \<^verbatim>\<open>drive.exists\<close> may be missing.
\<close>

record 'd drive_ops =
  drive_put :: "string \<Rightarrow> string \<Rightarrow> 'd \<Rightarrow> js_error option \<times> 'd"
  drive_del :: "string \<Rightarrow> 'd \<Rightarrow> js_error option \<times> 'd"
  drive_exists :: "(string \<Rightarrow> 'd \<Rightarrow> (js_error + bool) \<times> 'd) option"

text \<open>
  \<^verbatim>\<open>saveMetaToHyperdrive(drive, prefix, metaFile, meta)\<close>; \<open>stringify\<close> stands for
  \<^verbatim>\<open>JSON.stringify\<close>. The result is the rejection, if any, and the drive afterwards.
\<close>

definition saveMetaToHyperdrive ::
  "'d drive_ops \<Rightarrow> (meta \<Rightarrow> string) \<Rightarrow> string \<Rightarrow> jsval \<Rightarrow> meta \<Rightarrow> 'd \<Rightarrow> js_error option \<times> 'd" where
  "saveMetaToHyperdrive drive stringify prefix metaFile m d =
     (if \<not> validateMetaId (meta_id m) then
        (Some (Error (''Invalid meta.id: must be a non-empty string '' @
                      ''(max 255 chars, alphanumeric/hyphen/underscore only)'')), d)
      else
        (case sanitizePathComponent (meta_id m) of
           None \<Rightarrow> (Some (Error ''Invalid meta.id''), d)
         | Some i \<Rightarrow>
             (case sanitizePathComponent metaFile of
                None \<Rightarrow> (Some (Error ''Invalid metaFile''), d)
              | Some metaFileName \<Rightarrow>
                  drive_put drive (prefix @ ''/'' @ i @ ''/'' @ metaFileName) (stringify m) d)))"

text \<open>What \<^verbatim>\<open>deleteFilesFromHyperdrive\<close> prints with \<^verbatim>\<open>console.warn\<close>.\<close>

datatype adapter_diag =
    InvalidMetaId jsval
  | FailedToDelete nat string
  | FailedToDeleteFile string js_error
  | StillExists string string
  | RetryFailed string js_error
  | CouldNotVerify string js_error

text \<open>
  \<^verbatim>\<open>Promise.allSettled(sanitizedFiles.map((name) => drive.del(...)))\<close>: every deletion is
  started, in order, and none stops the others; the rejected ones are collected.
\<close>

fun del_all :: "'d drive_ops \<Rightarrow> string \<Rightarrow> string list \<Rightarrow> 'd \<Rightarrow> (string \<times> js_error) list \<times> 'd" where
  "del_all drive base [] d = ([], d)"
| "del_all drive base (name # names) d =
     (case drive_del drive (base @ ''/'' @ name) d of
        (r, d1) \<Rightarrow>
          (case del_all drive base names d1 of
             (failures, d2) \<Rightarrow>
               ((case r of None \<Rightarrow> failures | Some e \<Rightarrow> (base @ ''/'' @ name, e) # failures), d2)))"

text \<open>The verification loop that runs when the drive has \<^verbatim>\<open>exists\<close>.\<close>

fun verify_all ::
  "'d drive_ops \<Rightarrow> (string \<Rightarrow> 'd \<Rightarrow> (js_error + bool) \<times> 'd) \<Rightarrow> string \<Rightarrow> string \<Rightarrow> string list
     \<Rightarrow> 'd \<Rightarrow> adapter_diag list \<Rightarrow> 'd \<times> adapter_diag list" where
  "verify_all drive ex base i [] d log = (d, log)"
| "verify_all drive ex base i (name # names) d log =
     (let path = base @ ''/'' @ name in
      case ex path d of
        (Inl err, d1) \<Rightarrow> verify_all drive ex base i names d1 (log @ [CouldNotVerify path err])
      | (Inr False, d1) \<Rightarrow> verify_all drive ex base i names d1 log
      | (Inr True, d1) \<Rightarrow>
          (case drive_del drive path d1 of
             (Some e, d2) \<Rightarrow> verify_all drive ex base i names d2 (log @ [RetryFailed path e])
           | (None, d2) \<Rightarrow>
               (case ex path d2 of
                  (Inl e, d3) \<Rightarrow> verify_all drive ex base i names d3 (log @ [RetryFailed path e])
                | (Inr True, d3) \<Rightarrow> verify_all drive ex base i names d3 (log @ [StillExists name i])
                | (Inr False, d3) \<Rightarrow> verify_all drive ex base i names d3 log)))"

text \<open>
  \<^verbatim>\<open>deleteFilesFromHyperdrive(drive, prefix, filesToDelete, meta)\<close>, the adapter's
  \<^verbatim>\<open>onExpire\<close>: the rejection, if any, the drive afterwards and the warnings printed.
\<close>

definition deleteFilesFromHyperdrive ::
  "'d drive_ops \<Rightarrow> string \<Rightarrow> jsval list \<Rightarrow> meta \<Rightarrow> 'd \<Rightarrow> js_error option \<times> 'd \<times> adapter_diag list" where
  "deleteFilesFromHyperdrive drive prefix filesToDelete m d =
     (if \<not> validateMetaId (meta_id m) then (None, d, [InvalidMetaId (meta_id m)])
      else
        (case sanitizePathComponent (meta_id m) of
           None \<Rightarrow> (None, d, [])
         | Some i \<Rightarrow>
             (let base = prefix @ ''/'' @ i;
                  sanitizedFiles = List.map_filter sanitizePathComponent filesToDelete
              in case del_all drive base sanitizedFiles d of
                   (failures, d1) \<Rightarrow>
                     (let log = (if length failures > 0
                                 then FailedToDelete (length failures) i #
                                      map (\<lambda>(path, e). FailedToDeleteFile path e) failures
                                 else [])
                      in case drive_exists drive of
                           None \<Rightarrow> (None, d1, log)
                         | Some ex \<Rightarrow>
                             (case verify_all drive ex base i sanitizedFiles d1 log of
                                (d2, log2) \<Rightarrow> (None, d2, log2))))))"

text \<open>
  A drive held in memory, as the mock drives of the tests are: the files as a list of
  paths with their contents, every operation resolving.
\<close>

type_synonym mem_drive = "(string \<times> string) list"

definition mem_ops :: "mem_drive drive_ops" where
  "mem_ops =
     \<lparr> drive_put = (\<lambda>path buf d. (None, (path, buf) # filter (\<lambda>f. fst f \<noteq> path) d)),
       drive_del = (\<lambda>path d. (None, filter (\<lambda>f. fst f \<noteq> path) d)),
       drive_exists = Some (\<lambda>path d. (Inr (path \<in> fst ` set d), d)) \<rparr>"


section \<open>Concrete inputs\<close>

text \<open>A record with the given id, \<^verbatim>\<open>unlockAt\<close> and \<^verbatim>\<open>expiresAt\<close>, created at time 0.\<close>

definition session :: "string \<Rightarrow> jsval \<Rightarrow> jsval \<Rightarrow> meta" where
  "session i u e =
     \<lparr> meta_id = JStr i, createdAt = JNum (Num 0), updatedAt = JNum (Num 0),
       unlockAt = u, expiresAt = e \<rparr>"

text \<open>
  A context whose \<^verbatim>\<open>listMetas\<close> resolves with a fixed array, over a backend that only counts
  how often \<^verbatim>\<open>onExpire\<close> was entered; a callback that resolves every time, and one that
  rejects for the record with a given id.
\<close>

definition list_ctx ::
  "meta option list \<Rightarrow> (meta \<Rightarrow> nat \<Rightarrow> js_error option \<times> nat) option \<Rightarrow> nat gc_ctx" where
  "list_ctx ms cb = \<lparr> listMetas = (\<lambda>s. (Resolved ms, s)), onExpire = cb \<rparr>"

definition resolving :: "meta \<Rightarrow> nat \<Rightarrow> js_error option \<times> nat" where
  "resolving m s = (None, Suc s)"

definition rejecting_for :: "string \<Rightarrow> meta \<Rightarrow> nat \<Rightarrow> js_error option \<times> nat" where
  "rejecting_for i m s =
     (if meta_id m = JStr i then (Some (Error ''delete failed''), Suc s) else (None, Suc s))"


section \<open>The expiry predicates\<close>

text \<open>
  With a finite \<open>now\<close>, \<^const>\<open>isExpired\<close> on a record that is there computes \<^const>\<open>due\<close>:
  a numeric \<^verbatim>\<open>expiresAt\<close> inside the bounds and not after \<open>now\<close>.
\<close>

lemma isExpired_due: "isExpired loadTime (Some m) (JNum (Num n)) = Inr (due loadTime n m)"
  by (auto simp: isExpired_def validateTimestamp_def js_gt_def split: jsval.splits jsnum.splits)

lemma isUnlocked_open:
  "isUnlocked loadTime (Some m) (JNum (Num n)) =
     Inr (case unlockAt m of
            JNum (Num u) \<Rightarrow> 0 \<le> u \<and> u \<le> MAX_TIMESTAMP loadTime \<longrightarrow> u \<le> n
          | _ \<Rightarrow> True)"
  by (auto simp: isUnlocked_def validateTimestamp_def js_gt_def split: jsval.splits jsnum.splits)

lemma validateTimestamp_bounds:
  "validateTimestamp v (Num 0) (Num (MAX_TIMESTAMP loadTime)) \<longleftrightarrow>
     (\<exists>e. v = JNum (Num e) \<and> 0 \<le> e \<and> e \<le> loadTime + 3153600000000)"
proof (cases v)
  case (JNum x)
  then show ?thesis
    by (cases x) (auto simp: validateTimestamp_def js_gt_def MAX_TIMESTAMP_def)
qed (simp_all add: validateTimestamp_def)

text \<open>
  Claim C4, as stated, fails for a \<open>T\<close> outside the bounds of the timestamp validation. A
  record with \<^verbatim>\<open>expiresAt = -1\<close> is not expired at \<open>now = -1\<close>, and with the module loaded
  at 1700000000000 a record with \<^verbatim>\<open>expiresAt = 5000000000000\<close> is not expired at that very
  moment; a record with \<^verbatim>\<open>unlockAt = -1\<close> counts as unlocked at \<open>now = -2\<close>.
\<close>

theorem expiry_boundary_out_of_bounds_counterexample:
  "isExpired 1700000000000 (Some (session ''s1'' JUndefined (JNum (Num (- 1))))) (JNum (Num (- 1))) =
     Inr False \<and>
   isExpired 1700000000000 (Some (session ''s1'' JUndefined (JNum (Num 5000000000000))))
     (JNum (Num 5000000000000)) = Inr False \<and>
   isUnlocked 1700000000000 (Some (session ''s1'' (JNum (Num (- 1))) JUndefined))
     (JNum (Num (- 1 - 1))) = Inr True"
  by (simp add: isExpired_due isUnlocked_open session_def MAX_TIMESTAMP_def)

text \<open>
  Claim C4, amended. The timestamp validation accepts exactly the finite numbers from 0 to
  \<open>MAX_TIMESTAMP\<close>, the time the module was loaded plus 3153600000000 ms. For every \<open>T\<close> in
  that range, a record with \<^verbatim>\<open>expiresAt = T\<close> is expired at \<open>now = T\<close> and not at
  \<open>now = T - 1\<close>, and a record with \<^verbatim>\<open>unlockAt = T\<close> is unlocked at \<open>T\<close> and not at
  \<open>T - 1\<close>. At a finite \<open>now\<close>, \<^const>\<open>isExpired\<close> is false when \<^verbatim>\<open>expiresAt\<close> is absent or is
  not a finite number in that range, and \<^const>\<open>isUnlocked\<close> is true when \<^verbatim>\<open>unlockAt\<close> is
  absent or is not a finite number in that range. For an absent record \<^const>\<open>isExpired\<close> is
  true and \<^const>\<open>isUnlocked\<close> is false, whatever \<open>now\<close> is.
\<close>

theorem expiry_boundary_within_bounds:
  "(validateTimestamp v (Num 0) (Num (MAX_TIMESTAMP loadTime)) \<longleftrightarrow>
      (\<exists>e. v = JNum (Num e) \<and> 0 \<le> e \<and> e \<le> loadTime + 3153600000000)) \<and>
   (0 \<le> T \<and> T \<le> loadTime + 3153600000000 \<longrightarrow>
      isExpired loadTime (Some (m\<lparr>expiresAt := JNum (Num T)\<rparr>)) (JNum (Num T)) = Inr True \<and>
      isExpired loadTime (Some (m\<lparr>expiresAt := JNum (Num T)\<rparr>)) (JNum (Num (T - 1))) = Inr False \<and>
      isUnlocked loadTime (Some (m\<lparr>unlockAt := JNum (Num T)\<rparr>)) (JNum (Num T)) = Inr True \<and>
      isUnlocked loadTime (Some (m\<lparr>unlockAt := JNum (Num T)\<rparr>)) (JNum (Num (T - 1))) = Inr False) \<and>
   (expiresAt m = JUndefined \<longrightarrow> isExpired loadTime (Some m) (JNum (Num n)) = Inr False) \<and>
   (\<not> (\<exists>e. expiresAt m = JNum (Num e) \<and> 0 \<le> e \<and> e \<le> loadTime + 3153600000000) \<longrightarrow>
      isExpired loadTime (Some m) (JNum (Num n)) = Inr False) \<and>
   isExpired loadTime None now = Inr True \<and>
   (unlockAt m = JUndefined \<longrightarrow> isUnlocked loadTime (Some m) (JNum (Num n)) = Inr True) \<and>
   (\<not> (\<exists>u. unlockAt m = JNum (Num u) \<and> 0 \<le> u \<and> u \<le> loadTime + 3153600000000) \<longrightarrow>
      isUnlocked loadTime (Some m) (JNum (Num n)) = Inr True) \<and>
   isUnlocked loadTime None now = Inr False"
proof (intro conjI impI)
  show "validateTimestamp v (Num 0) (Num (MAX_TIMESTAMP loadTime)) \<longleftrightarrow>
      (\<exists>e. v = JNum (Num e) \<and> 0 \<le> e \<and> e \<le> loadTime + 3153600000000)"
    by (rule validateTimestamp_bounds)
next
  assume T: "0 \<le> T \<and> T \<le> loadTime + 3153600000000"
  show "isExpired loadTime (Some (m\<lparr>expiresAt := JNum (Num T)\<rparr>)) (JNum (Num T)) = Inr True"
    using T by (simp add: isExpired_due MAX_TIMESTAMP_def)
  show "isExpired loadTime (Some (m\<lparr>expiresAt := JNum (Num T)\<rparr>)) (JNum (Num (T - 1))) = Inr False"
    using T by (simp add: isExpired_due MAX_TIMESTAMP_def)
  show "isUnlocked loadTime (Some (m\<lparr>unlockAt := JNum (Num T)\<rparr>)) (JNum (Num T)) = Inr True"
    using T by (simp add: isUnlocked_open MAX_TIMESTAMP_def)
  show "isUnlocked loadTime (Some (m\<lparr>unlockAt := JNum (Num T)\<rparr>)) (JNum (Num (T - 1))) = Inr False"
    using T by (simp add: isUnlocked_open MAX_TIMESTAMP_def)
next
  assume "expiresAt m = JUndefined"
  then show "isExpired loadTime (Some m) (JNum (Num n)) = Inr False"
    by (simp add: isExpired_due)
next
  assume "\<not> (\<exists>e. expiresAt m = JNum (Num e) \<and> 0 \<le> e \<and> e \<le> loadTime + 3153600000000)"
  then show "isExpired loadTime (Some m) (JNum (Num n)) = Inr False"
    by (auto simp: isExpired_due MAX_TIMESTAMP_def split: jsval.splits jsnum.splits)
next
  show "isExpired loadTime None now = Inr True"
    by (simp add: isExpired_def)
next
  assume "unlockAt m = JUndefined"
  then show "isUnlocked loadTime (Some m) (JNum (Num n)) = Inr True"
    by (simp add: isUnlocked_open)
next
  assume "\<not> (\<exists>u. unlockAt m = JNum (Num u) \<and> 0 \<le> u \<and> u \<le> loadTime + 3153600000000)"
  then show "isUnlocked loadTime (Some m) (JNum (Num n)) = Inr True"
    by (auto simp: isUnlocked_open MAX_TIMESTAMP_def split: jsval.splits jsnum.splits)
next
  show "isUnlocked loadTime None now = Inr False"
    by (simp add: isUnlocked_def)
qed

theorem expiry_boundary_within_bounds_witness:
  "(0::int) \<le> 5000 \<and> (5000::int) \<le> 1000 + 3153600000000 \<and>
   isExpired 1000 (Some (session ''s1'' JUndefined (JNum (Num 5000)))) (JNum (Num 5000)) = Inr True \<and>
   isExpired 1000 (Some (session ''s1'' JUndefined (JNum (Num 5000)))) (JNum (Num 4999)) = Inr False \<and>
   isUnlocked 1000 (Some (session ''s1'' (JNum (Num 5000)) JUndefined)) (JNum (Num 5000)) = Inr True \<and>
   isUnlocked 1000 (Some (session ''s1'' (JNum (Num 5000)) JUndefined)) (JNum (Num 4999)) = Inr False \<and>
   isExpired 1000 (Some (session ''s1'' JUndefined JUndefined)) (JNum (Num 7)) = Inr False \<and>
   isUnlocked 1000 (Some (session ''s1'' JUndefined JUndefined)) (JNum (Num 7)) = Inr True \<and>
   isExpired 1000 (Some (session ''s2'' JUndefined (JNum (Num (- 1))))) (JNum (Num 7)) = Inr False \<and>
   isUnlocked 1000 (Some (session ''s2'' (JNum (Num 3153600001001)) JUndefined)) (JNum (Num 7)) =
     Inr True \<and>
   \<not> validateTimestamp (JNum (Num (- 1))) (Num 0) (Num (MAX_TIMESTAMP 1000)) \<and>
   \<not> validateTimestamp (JNum (Num 3153600001001)) (Num 0) (Num (MAX_TIMESTAMP 1000)) \<and>
   validateTimestamp (JNum (Num 3153600001000)) (Num 0) (Num (MAX_TIMESTAMP 1000))"
proof -
  let ?m = "session ''s1'' JUndefined JUndefined"
  let ?neg = "session ''s2'' JUndefined (JNum (Num (- 1)))"
  let ?far = "session ''s2'' (JNum (Num 3153600001001)) JUndefined"
  have b: "(0::int) \<le> 5000 \<and> (5000::int) \<le> 1000 + 3153600000000" by simp
  have upd: "?m\<lparr>expiresAt := JNum (Num 5000)\<rparr> = session ''s1'' JUndefined (JNum (Num 5000))"
    "?m\<lparr>unlockAt := JNum (Num 5000)\<rparr> = session ''s1'' (JNum (Num 5000)) JUndefined"
    by (simp_all add: session_def)
  have w1: "isExpired 1000 (Some (session ''s1'' JUndefined (JNum (Num 5000)))) (JNum (Num 5000)) = Inr True \<and>
      isExpired 1000 (Some (session ''s1'' JUndefined (JNum (Num 5000)))) (JNum (Num (5000 - 1))) = Inr False \<and>
      isUnlocked 1000 (Some (session ''s1'' (JNum (Num 5000)) JUndefined)) (JNum (Num 5000)) = Inr True \<and>
      isUnlocked 1000 (Some (session ''s1'' (JNum (Num 5000)) JUndefined)) (JNum (Num (5000 - 1))) = Inr False"
    using expiry_boundary_within_bounds [of JNull 1000 5000 ?m 7 JNull] b
    unfolding upd by blast
  have u: "expiresAt ?m = JUndefined" "unlockAt ?m = JUndefined"
    by (simp_all add: session_def)
  have w2: "isExpired 1000 (Some ?m) (JNum (Num 7)) = Inr False"
    "isUnlocked 1000 (Some ?m) (JNum (Num 7)) = Inr True"
    using expiry_boundary_within_bounds [of JNull 1000 5000 ?m 7 JNull] u by blast+
  have n: "\<not> (\<exists>e. expiresAt ?neg = JNum (Num e) \<and> 0 \<le> e \<and> e \<le> 1000 + 3153600000000)"
    by (simp add: session_def)
  have w3: "isExpired 1000 (Some ?neg) (JNum (Num 7)) = Inr False"
    using expiry_boundary_within_bounds [of JNull 1000 5000 ?neg 7 JNull] n by blast
  have f: "\<not> (\<exists>u. unlockAt ?far = JNum (Num u) \<and> 0 \<le> u \<and> u \<le> 1000 + 3153600000000)"
    by (simp add: session_def)
  have w4: "isUnlocked 1000 (Some ?far) (JNum (Num 7)) = Inr True"
    using expiry_boundary_within_bounds [of JNull 1000 5000 ?far 7 JNull] f by blast
  have w5: "\<not> validateTimestamp (JNum (Num (- 1))) (Num 0) (Num (MAX_TIMESTAMP 1000))"
    using expiry_boundary_within_bounds [of "JNum (Num (- 1))" 1000 5000 ?m 7 JNull] by simp
  have w6: "\<not> validateTimestamp (JNum (Num 3153600001001)) (Num 0) (Num (MAX_TIMESTAMP 1000))"
    using expiry_boundary_within_bounds [of "JNum (Num 3153600001001)" 1000 5000 ?m 7 JNull] by simp
  have w7: "validateTimestamp (JNum (Num 3153600001000)) (Num 0) (Num (MAX_TIMESTAMP 1000))"
    using expiry_boundary_within_bounds [of "JNum (Num 3153600001000)" 1000 5000 ?m 7 JNull] by simp
  from b w1 w2 w3 w4 w5 w6 w7 show ?thesis by simp
qed

text \<open>
  Claim C5, as stated, fails for an absent record: \<^verbatim>\<open>if (!meta) return\<close> comes before the
  check of \<open>now\<close>, so \<^verbatim>\<open>isExpired(null, NaN)\<close> is \<^verbatim>\<open>true\<close> and \<^verbatim>\<open>isUnlocked(null, NaN)\<close> is
  \<^verbatim>\<open>false\<close>; nothing is thrown.
\<close>

theorem invalid_now_absent_record_counterexample:
  "\<not> is_finite_number (JNum NaN) \<and>
   isExpired 0 None (JNum NaN) = Inr True \<and> isUnlocked 0 None (JNum NaN) = Inr False"
  by (simp add: isExpired_def isUnlocked_def)

text \<open>
  Claim C5, amended. For every record that is present and every \<open>now\<close> that is not a finite
  number, \<^const>\<open>isExpired\<close> and \<^const>\<open>isUnlocked\<close> throw their error and return no boolean.
  For an absent record they return \<^verbatim>\<open>true\<close> and \<^verbatim>\<open>false\<close> without looking at \<open>now\<close>.
\<close>

theorem invalid_now_present_record:
  "(\<not> is_finite_number now \<longrightarrow>
      isExpired loadTime (Some m) now =
        Inl (Error ''[ephemeral] isExpired: now is required and must be finite'') \<and>
      isUnlocked loadTime (Some m) now =
        Inl (Error ''[ephemeral] isUnlocked: now is required and must be finite'')) \<and>
   isExpired loadTime None now = Inr True \<and>
   isUnlocked loadTime None now = Inr False"
  by (simp add: isExpired_def isUnlocked_def)

theorem invalid_now_present_record_witness:
  "\<not> is_finite_number (JNum PosInfinity) \<and>
   isExpired 1000 (Some (session ''s1'' JUndefined (JNum (Num 5)))) (JNum PosInfinity) =
     Inl (Error ''[ephemeral] isExpired: now is required and must be finite'') \<and>
   isUnlocked 1000 (Some (session ''s1'' JUndefined (JNum (Num 5)))) (JNum PosInfinity) =
     Inl (Error ''[ephemeral] isUnlocked: now is required and must be finite'')"
  using invalid_now_present_record [of "JNum PosInfinity" 1000 "session ''s1'' JUndefined (JNum (Num 5))"]
  by simp


section \<open>The garbage-collection run\<close>

text \<open>
  A prefix of the list that the loop gets through without an exception can be split off:
  the loop goes on from the counter, the calls and the state it reached.
\<close>

lemma gc_loop_append:
  "gc_loop loadTime cb now pre k calls s = (Inr k', cs, s1) \<Longrightarrow>
     gc_loop loadTime cb now (pre @ rest) k calls s = gc_loop loadTime cb now rest k' cs s1"
proof (induction pre arbitrary: k calls s)
  case Nil
  then show ?case by simp
next
  case (Cons x pre)
  show ?case
  proof (cases x)
    case None
    with Cons show ?thesis by simp
  next
    case (Some m)
    with Cons show ?thesis
      by (auto split: sum.splits bool.splits option.splits prod.splits)
  qed
qed

lemma gc_loop_resolving:
  assumes ok: "\<forall>m t. fst (f m t) = None"
  shows "\<exists>s'. gc_loop loadTime (Some f) (JNum (Num n)) metas k calls s =
           (Inr (k + length (filter (due loadTime n) (present metas))),
            calls @ filter (due loadTime n) (present metas), s')"
proof (induction metas arbitrary: k calls s)
  case Nil
  then show ?case by simp
next
  case (Cons x metas)
  show ?case
  proof (cases x)
    case None
    with Cons show ?thesis by simp
  next
    case (Some m)
    show ?thesis
    proof (cases "due loadTime n m")
      case False
      with Some Cons [of k calls s] show ?thesis
        by (simp add: isExpired_due del: due.simps)
    next
      case True
      obtain e t where ft: "f m s = (e, t)" by (cases "f m s")
      with ok have "e = None" by (metis fst_conv)
      with ft True Some Cons [of "k + 1" "calls @ [m]" t] show ?thesis
        by (simp add: isExpired_due del: due.simps)
    qed
  qed
qed

lemma gc_loop_drop_beyond:
  "gc_loop loadTime cb (JNum (Num n)) (filter (\<lambda>x. \<not> beyond_entry loadTime x) metas) k calls s =
   gc_loop loadTime cb (JNum (Num n)) metas k calls s"
proof (induction metas arbitrary: k calls s)
  case Nil
  then show ?case by simp
next
  case (Cons x metas)
  show ?case
  proof (cases x)
    case None
    with Cons show ?thesis by simp
  next
    case (Some m)
    show ?thesis
    proof (cases "beyond_bound loadTime m")
      case True
      then have "\<not> due loadTime n m"
        by (auto split: jsval.splits jsnum.splits)
      with True Some Cons show ?thesis
        by (simp add: isExpired_due del: due.simps beyond_bound.simps)
    next
      case False
      with Some Cons show ?thesis
        by (auto simp add: isExpired_due simp del: due.simps beyond_bound.simps split: option.splits prod.splits bool.splits)
    qed
  qed
qed

lemma gc_loop_calls:
  "gc_loop loadTime cb (JNum (Num n)) metas k calls s = (r, cs, s') \<Longrightarrow>
     set cs \<subseteq> set calls \<union> {m \<in> set (present metas). due loadTime n m}"
proof (induction metas arbitrary: k calls s)
  case Nil
  then show ?case by simp
next
  case (Cons x metas)
  show ?case
  proof (cases x)
    case None
    with Cons show ?thesis by simp
  next
    case (Some m)
    show ?thesis
    proof (cases "due loadTime n m")
      case False
      with Some Cons.prems Cons.IH [of k calls s] show ?thesis
        by (auto simp add: isExpired_due simp del: due.simps)
    next
      case True
      show ?thesis
      proof (cases cb)
        case None
        with True Some Cons.prems Cons.IH [of "k + 1" calls s] show ?thesis
          by (auto simp add: isExpired_due simp del: due.simps)
      next
        case (Some f)
        obtain e t where ft: "f m s = (e, t)" by (cases "f m s")
        show ?thesis
        proof (cases e)
          case None
          with ft True \<open>x = Some m\<close> Some Cons.prems Cons.IH [of "k + 1" "calls @ [m]" t]
          show ?thesis
            by (auto simp add: isExpired_due simp del: due.simps)
        next
          case (Some err)
          with ft True \<open>x = Some m\<close> \<open>cb = Some f\<close> Cons.prems show ?thesis
            by (auto simp add: isExpired_due simp del: due.simps)
        qed
      qed
    qed
  qed
qed

lemma gc_loop_calls_exact:
  "gc_loop loadTime (Some f) now pre k0 calls s = (Inr k, cs, s1) \<Longrightarrow>
     cs = calls @ filter (\<lambda>x. isExpired loadTime (Some x) now = Inr True) (present pre) \<and>
     k = k0 + length (filter (\<lambda>x. isExpired loadTime (Some x) now = Inr True) (present pre))"
proof (induction pre arbitrary: k0 calls s)
  case Nil
  then show ?case by simp
next
  case (Cons x pre)
  show ?case
  proof (cases x)
    case None
    with Cons show ?thesis by simp
  next
    case (Some m)
    show ?thesis
    proof (cases "isExpired loadTime (Some m) now")
      case (Inl err)
      with Some Cons.prems show ?thesis by simp
    next
      case (Inr b)
      show ?thesis
      proof (cases b)
        case False
        with Inr Some Cons.prems Cons.IH [of k0 calls s] show ?thesis by simp
      next
        case True
        obtain r t where ft: "f m s = (r, t)" by (cases "f m s")
        show ?thesis
        proof (cases r)
          case None
          with ft True Inr Some Cons.prems Cons.IH [of "k0 + 1" "calls @ [m]" t]
          show ?thesis by simp
        next
          case (Some err)
          with ft True Inr \<open>x = Some m\<close> Cons.prems show ?thesis by simp
        qed
      qed
    qed
  qed
qed

text \<open>
  Claim C1, as stated, fails: the loop has no \<^verbatim>\<open>try\<close>, so the first rejection of
  \<^verbatim>\<open>await ctx.onExpire(meta)\<close> leaves \<^verbatim>\<open>runEphemeralGC\<close>. With two expired records and a
  callback that rejects for the first and would resolve for the second, the run rejects after
  one call: the second record is never handed to the callback and no count is returned.
\<close>

theorem callback_failure_aborts_counterexample:
  "isExpired 0 (Some (session ''a'' JUndefined (JNum (Num 1)))) (JNum (Num 10)) = Inr True \<and>
   isExpired 0 (Some (session ''b'' JUndefined (JNum (Num 2)))) (JNum (Num 10)) = Inr True \<and>
   rejecting_for ''a'' (session ''b'' JUndefined (JNum (Num 2))) 1 = (None, 2) \<and>
   runEphemeralGC 0
     (list_ctx [Some (session ''a'' JUndefined (JNum (Num 1))),
                Some (session ''b'' JUndefined (JNum (Num 2)))]
        (Some (rejecting_for ''a'')))
     (JNum (Num 10)) 0 =
   (Inl (Error ''delete failed''), [session ''a'' JUndefined (JNum (Num 1))], 1)"
  by (simp add: runEphemeralGC_def list_ctx_def rejecting_for_def session_def isExpired_def
      validateTimestamp_def js_gt_def MAX_TIMESTAMP_def)

text \<open>
  Claim C1, amended. For every run in which \<^verbatim>\<open>onExpire\<close> rejects for an expired record \<open>m\<close>
  after the records before it went through: the run stops at \<open>m\<close> and rejects with that
  error at once. The callback has been called exactly for the records before \<open>m\<close> that
  \<^const>\<open>isExpired\<close> judges expired, in list order, and then for \<open>m\<close>; whatever follows \<open>m\<close>
  in the list is not looked at, and no count is returned.
\<close>

theorem callback_failure_stops_run:
  assumes "listMetas ctx s = (r, s0)"
    and "normalizeList r = Inr (pre @ Some m # post)"
    and "onExpire ctx = Some f"
    and "gc_loop loadTime (Some f) now pre 0 [] s0 = (Inr k, cs, s1)"
    and "isExpired loadTime (Some m) now = Inr True"
    and "f m s1 = (Some e, s2)"
  shows "runEphemeralGC loadTime ctx now s =
           (Inl e,
            filter (\<lambda>x. isExpired loadTime (Some x) now = Inr True) (present pre) @ [m], s2) \<and>
         cs = filter (\<lambda>x. isExpired loadTime (Some x) now = Inr True) (present pre) \<and>
         k = length cs \<and>
         (now = JNum (Num n) \<longrightarrow> cs = filter (due loadTime n) (present pre))"
proof -
  have cs: "cs = filter (\<lambda>x. isExpired loadTime (Some x) now = Inr True) (present pre)"
    and k: "k = length (filter (\<lambda>x. isExpired loadTime (Some x) now = Inr True) (present pre))"
    using gc_loop_calls_exact [OF assms(4)] by simp_all
  have "gc_loop loadTime (Some f) now (pre @ Some m # post) 0 [] s0 =
        gc_loop loadTime (Some f) now (Some m # post) k cs s1"
    using assms(4) by (rule gc_loop_append)
  also have "\<dots> = (Inl e, cs @ [m], s2)"
    using assms(5,6) by simp
  finally have run: "runEphemeralGC loadTime ctx now s = (Inl e, cs @ [m], s2)"
    using assms(1,2,3) by (simp add: runEphemeralGC_def)
  have fin: "now = JNum (Num n) \<longrightarrow> cs = filter (due loadTime n) (present pre)"
    using cs by (simp add: isExpired_due del: due.simps)
  from run cs k fin show ?thesis by simp
qed

theorem callback_failure_stops_run_witness:
  "gc_loop 0 (Some (rejecting_for ''b'')) (JNum (Num 10))
     [Some (session ''a'' JUndefined (JNum (Num 1))), None,
      Some (session ''z'' JUndefined (JNum (Num 99)))] 0 [] 0 =
     (Inr 1, [session ''a'' JUndefined (JNum (Num 1))], 1) \<and>
   isExpired 0 (Some (session ''b'' JUndefined (JNum (Num 2)))) (JNum (Num 10)) = Inr True \<and>
   isExpired 0 (Some (session ''c'' JUndefined (JNum (Num 3)))) (JNum (Num 10)) = Inr True \<and>
   rejecting_for ''b'' (session ''b'' JUndefined (JNum (Num 2))) 1 = (Some (Error ''delete failed''), 2) \<and>
   filter (due 0 10)
     (present [Some (session ''a'' JUndefined (JNum (Num 1))), None,
               Some (session ''z'' JUndefined (JNum (Num 99)))]) =
     [session ''a'' JUndefined (JNum (Num 1))] \<and>
   runEphemeralGC 0
     (list_ctx [Some (session ''a'' JUndefined (JNum (Num 1))), None,
                Some (session ''z'' JUndefined (JNum (Num 99))),
                Some (session ''b'' JUndefined (JNum (Num 2))),
                Some (session ''c'' JUndefined (JNum (Num 3)))]
        (Some (rejecting_for ''b'')))
     (JNum (Num 10)) 0 =
   (Inl (Error ''delete failed''),
    [session ''a'' JUndefined (JNum (Num 1)), session ''b'' JUndefined (JNum (Num 2))], 2)"
proof -
  let ?a = "session ''a'' JUndefined (JNum (Num 1))"
  let ?z = "session ''z'' JUndefined (JNum (Num 99))"
  let ?b = "session ''b'' JUndefined (JNum (Num 2))"
  let ?c = "session ''c'' JUndefined (JNum (Num 3))"
  let ?pre = "[Some ?a, None, Some ?z]"
  let ?ctx = "list_ctx [Some ?a, None, Some ?z, Some ?b, Some ?c] (Some (rejecting_for ''b''))"
  have h1: "listMetas ?ctx 0 = (Resolved (?pre @ Some ?b # [Some ?c]), 0)"
    by (simp add: list_ctx_def)
  have h2: "normalizeList (Resolved (?pre @ Some ?b # [Some ?c])) = Inr (?pre @ Some ?b # [Some ?c])"
    by simp
  have h3: "onExpire ?ctx = Some (rejecting_for ''b'')"
    by (simp add: list_ctx_def)
  have h4: "gc_loop 0 (Some (rejecting_for ''b'')) (JNum (Num 10)) ?pre 0 [] 0 = (Inr 1, [?a], 1)"
    by (simp add: isExpired_due rejecting_for_def session_def MAX_TIMESTAMP_def)
  have h5: "isExpired 0 (Some ?b) (JNum (Num 10)) = Inr True"
    by (simp add: isExpired_due session_def MAX_TIMESTAMP_def)
  have h5': "isExpired 0 (Some ?c) (JNum (Num 10)) = Inr True"
    by (simp add: isExpired_due session_def MAX_TIMESTAMP_def)
  have h6: "rejecting_for ''b'' ?b 1 = (Some (Error ''delete failed''), 2)"
    by (simp add: rejecting_for_def session_def)
  have run: "runEphemeralGC 0 ?ctx (JNum (Num 10)) 0 =
      (Inl (Error ''delete failed''),
       filter (\<lambda>x. isExpired 0 (Some x) (JNum (Num 10)) = Inr True) (present ?pre) @ [?b], 2)"
    by (rule callback_failure_stops_run [OF h1 h2 h3 h4 h5 h6, THEN conjunct1])
  have f: "filter (\<lambda>x. isExpired 0 (Some x) (JNum (Num 10)) = Inr True) (present ?pre) = [?a]"
    by (simp add: isExpired_due session_def MAX_TIMESTAMP_def)
  have d: "filter (due 0 10) (present ?pre) = [?a]"
    by (simp add: session_def MAX_TIMESTAMP_def)
  have r: "runEphemeralGC 0 ?ctx (JNum (Num 10)) 0 = (Inl (Error ''delete failed''), [?a, ?b], 2)"
    using run by (simp only: f append.simps)
  from r d h4 h5 h5' h6 show ?thesis by blast
qed

text \<open>
  Claim C3, as stated, fails: \<^const>\<open>isExpired\<close> counts a record only when its
  \<^verbatim>\<open>expiresAt\<close> passes \<^const>\<open>validateTimestamp\<close>. Two records whose \<^verbatim>\<open>expiresAt\<close> is before
  the captured \<open>now\<close>, one negative and one above \<open>MAX_TIMESTAMP\<close>, give \<^verbatim>\<open>{expired: 0}\<close>
  and no call, where the claim says 2.
\<close>

theorem out_of_bounds_not_counted_counterexample:
  "expiresAt_at_or_before 4000000000000 (session ''neg'' JUndefined (JNum (Num (- 1)))) \<and>
   expiresAt_at_or_before 4000000000000 (session ''far'' JUndefined (JNum (Num 3999999999999))) \<and>
   runEphemeralGC 0
     (list_ctx [Some (session ''neg'' JUndefined (JNum (Num (- 1)))),
                Some (session ''far'' JUndefined (JNum (Num 3999999999999)))]
        (Some resolving))
     (JNum (Num 4000000000000)) 0 =
   (Inr 0, [], 0)"
  by (simp add: runEphemeralGC_def list_ctx_def session_def isExpired_due MAX_TIMESTAMP_def)

text \<open>
  Claim C3, amended. The captured \<open>now\<close> is finite and the callback always resolves. Then for
  every record list with \<open>N\<close> records whose \<^verbatim>\<open>expiresAt\<close> is a number inside
  \<open>0 \<dots> MAX_TIMESTAMP\<close> and at or before \<open>now\<close>, any records of another kind, and any number of
  \<^verbatim>\<open>null\<close> entries: the run returns \<^verbatim>\<open>{expired: N}\<close>; the callback is called exactly for
  those \<open>N\<close> entries, once each and in list order (so with distinct records when the records
  are distinct); \<^verbatim>\<open>null\<close> entries are skipped and raise nothing; over the empty list the
  run returns \<^verbatim>\<open>{expired: 0}\<close> and calls nothing.
\<close>

theorem gc_run_counts_due_records:
  assumes "listMetas ctx s = (r, s0)"
    and "normalizeList r = Inr metas"
    and "onExpire ctx = Some f"
    and "\<forall>m t. fst (f m t) = None"
  shows "fst (runEphemeralGC loadTime ctx (JNum (Num n)) s) =
           Inr (length (filter (due loadTime n) (present metas))) \<and>
         fst (snd (runEphemeralGC loadTime ctx (JNum (Num n)) s)) =
           filter (due loadTime n) (present metas) \<and>
         (distinct (present metas) \<longrightarrow>
            distinct (fst (snd (runEphemeralGC loadTime ctx (JNum (Num n)) s)))) \<and>
         (metas = [] \<longrightarrow> runEphemeralGC loadTime ctx (JNum (Num n)) s = (Inr 0, [], s0))"
proof -
  obtain s' where loop: "gc_loop loadTime (Some f) (JNum (Num n)) metas 0 [] s0 =
      (Inr (0 + length (filter (due loadTime n) (present metas))),
       [] @ filter (due loadTime n) (present metas), s')"
    using gc_loop_resolving [OF assms(4)] by blast
  have run: "runEphemeralGC loadTime ctx (JNum (Num n)) s =
      gc_loop loadTime (Some f) (JNum (Num n)) metas 0 [] s0"
    using assms(1,2,3) by (simp add: runEphemeralGC_def)
  have empty: "metas = [] \<longrightarrow> runEphemeralGC loadTime ctx (JNum (Num n)) s = (Inr 0, [], s0)"
    using run by simp
  from run loop empty show ?thesis by simp
qed

theorem gc_run_counts_due_records_witness:
  "fst (runEphemeralGC 0
     (list_ctx [Some (session ''a'' JUndefined (JNum (Num 1))), None,
                Some (session ''b'' JUndefined JUndefined),
                Some (session ''c'' JUndefined (JNum (Num 99))),
                Some (session ''d'' JUndefined (JNum (Num 10)))]
        (Some resolving))
     (JNum (Num 10)) 0) = Inr 2 \<and>
   fst (snd (runEphemeralGC 0
     (list_ctx [Some (session ''a'' JUndefined (JNum (Num 1))), None,
                Some (session ''b'' JUndefined JUndefined),
                Some (session ''c'' JUndefined (JNum (Num 99))),
                Some (session ''d'' JUndefined (JNum (Num 10)))]
        (Some resolving))
     (JNum (Num 10)) 0)) =
     [session ''a'' JUndefined (JNum (Num 1)), session ''d'' JUndefined (JNum (Num 10))] \<and>
   runEphemeralGC 0 (list_ctx [] (Some resolving)) (JNum (Num 10)) 0 = (Inr 0, [], 0) \<and>
   (\<forall>m t. fst (resolving m t) = None)"
proof -
  let ?ms = "[Some (session ''a'' JUndefined (JNum (Num 1))), None,
                Some (session ''b'' JUndefined JUndefined),
                Some (session ''c'' JUndefined (JNum (Num 99))),
                Some (session ''d'' JUndefined (JNum (Num 10)))]"
  let ?ctx = "list_ctx ?ms (Some resolving)"
  have h1: "listMetas ?ctx 0 = (Resolved ?ms, 0)" by (simp add: list_ctx_def)
  have h2: "normalizeList (Resolved ?ms) = Inr ?ms" by simp
  have h3: "onExpire ?ctx = Some resolving" by (simp add: list_ctx_def)
  have h4: "\<forall>m t. fst (resolving m t) = None" by (simp add: resolving_def)
  have e1: "listMetas (list_ctx [] (Some resolving)) 0 = (Resolved [], 0)"
    by (simp add: list_ctx_def)
  have e2: "normalizeList (Resolved []) = Inr []" by simp
  have e3: "onExpire (list_ctx [] (Some resolving)) = Some resolving"
    by (simp add: list_ctx_def)
  from gc_run_counts_due_records [OF h1 h2 h3 h4, of 0 10]
       gc_run_counts_due_records [OF e1 e2 e3 h4, of 0 10] h4
  show ?thesis by (simp add: session_def MAX_TIMESTAMP_def)
qed

text \<open>
  Claim C9. The upper bound of the timestamp validation is \<open>MAX_TIMESTAMP\<close>, the time the
  module was loaded plus 100 years of 365 days in milliseconds; \<open>now\<close> does not enter it. A
  record whose \<^verbatim>\<open>expiresAt\<close> is a finite number above it is not expired at any finite
  \<open>now\<close>. A run never hands such a record to \<^verbatim>\<open>onExpire\<close>, and the run is the same as the
  run over the list without such records: they do not count.
\<close>

theorem beyond_bound_never_expired:
  "MAX_TIMESTAMP loadTime = loadTime + 3153600000000 \<and>
   (beyond_bound loadTime m \<longrightarrow> isExpired loadTime (Some m) (JNum (Num n)) = Inr False) \<and>
   (\<forall>m \<in> set (fst (snd (runEphemeralGC loadTime ctx (JNum (Num n)) s))).
       \<not> beyond_bound loadTime m) \<and>
   runEphemeralGC loadTime
     (ctx\<lparr>listMetas := (\<lambda>t. case listMetas ctx t of (r, t') \<Rightarrow> (drop_beyond loadTime r, t'))\<rparr>)
     (JNum (Num n)) s =
   runEphemeralGC loadTime ctx (JNum (Num n)) s"
proof (intro conjI impI ballI)
  show "MAX_TIMESTAMP loadTime = loadTime + 3153600000000"
    by (simp add: MAX_TIMESTAMP_def)
next
  assume "beyond_bound loadTime m"
  then have "\<not> due loadTime n m"
    by (auto split: jsval.splits jsnum.splits)
  then show "isExpired loadTime (Some m) (JNum (Num n)) = Inr False"
    by (simp add: isExpired_due del: due.simps)
next
  fix m
  assume m: "m \<in> set (fst (snd (runEphemeralGC loadTime ctx (JNum (Num n)) s)))"
  obtain r s0 where l: "listMetas ctx s = (r, s0)" by (cases "listMetas ctx s")
  have "due loadTime n m"
  proof (cases "normalizeList r")
    case (Inl e)
    with l m show ?thesis by (simp add: runEphemeralGC_def)
  next
    case (Inr metas)
    obtain res cs s1 where g: "gc_loop loadTime (onExpire ctx) (JNum (Num n)) metas 0 [] s0 = (res, cs, s1)"
      by (cases "gc_loop loadTime (onExpire ctx) (JNum (Num n)) metas 0 [] s0") auto
    from gc_loop_calls [OF g] have "set cs \<subseteq> {m \<in> set (present metas). due loadTime n m}"
      by simp
    moreover from l Inr g m have "m \<in> set cs" by (simp add: runEphemeralGC_def)
    ultimately show ?thesis by blast
  qed
  then show "\<not> beyond_bound loadTime m"
    by (auto split: jsval.splits jsnum.splits)
next
  obtain r s0 where l: "listMetas ctx s = (r, s0)" by (cases "listMetas ctx s")
  show "runEphemeralGC loadTime
     (ctx\<lparr>listMetas := (\<lambda>t. case listMetas ctx t of (r, t') \<Rightarrow> (drop_beyond loadTime r, t'))\<rparr>)
     (JNum (Num n)) s =
   runEphemeralGC loadTime ctx (JNum (Num n)) s"
    using l by (cases r) (simp_all add: runEphemeralGC_def gc_loop_drop_beyond)
qed

theorem beyond_bound_never_expired_witness:
  "beyond_bound 1000 (session ''far'' JUndefined (JNum (Num 3153600001001))) \<and>
   isExpired 1000 (Some (session ''far'' JUndefined (JNum (Num 3153600001001))))
     (JNum (Num 9000000000000)) = Inr False \<and>
   runEphemeralGC 1000
     (list_ctx [Some (session ''far'' JUndefined (JNum (Num 3153600001001))),
                Some (session ''a'' JUndefined (JNum (Num 1)))] (Some resolving))
     (JNum (Num 9000000000000)) 0 =
   (Inr 1, [session ''a'' JUndefined (JNum (Num 1))], 1)"
  using beyond_bound_never_expired [of 1000 "session ''far'' JUndefined (JNum (Num 3153600001001))"
      9000000000000
      "list_ctx [Some (session ''far'' JUndefined (JNum (Num 3153600001001))),
                 Some (session ''a'' JUndefined (JNum (Num 1)))] (Some resolving)" 0]
  by (simp add: runEphemeralGC_def list_ctx_def session_def isExpired_due MAX_TIMESTAMP_def resolving_def)


section \<open>The scheduler\<close>





lemma tick_failure_keeps:
  "consecutiveErrors a + 1 < MAX_CONSECUTIVE_ERRORS \<Longrightarrow> timer (snd (tick (Inl e) a)) = timer a"
  by (simp add: tick_def promise_then_def promise_catch_def tick_rejected_def Let_def stop_def)







section \<open>The clock\<close>

text \<open>
  With a forward limit that is not negative, \<^verbatim>\<open>last\<close> never exceeds
  \<^verbatim>\<open>startTime + maxForwardMs\<close>, and a call returns a value between the old \<^verbatim>\<open>last\<close> and
  that limit and stores it as the new \<^verbatim>\<open>last\<close>.
\<close>

lemma clock_now_invariant:
  assumes "0 \<le> maxForwardMs c" and "last c \<le> startTime c + maxForwardMs c"
    and "clock_now r c = (v, c')"
  shows "last c \<le> v \<and> v \<le> startTime c + maxForwardMs c \<and> last c' = v \<and>
         startTime c' = startTime c \<and> maxForwardMs c' = maxForwardMs c \<and>
         maxBackwardsMs c' = maxBackwardsMs c"
  using assms by (auto simp: clock_now_def Let_def split: if_splits)

lemma clock_run_bounds:
  assumes "0 \<le> maxForwardMs c" and "last c \<le> startTime c + maxForwardMs c"
  shows "sorted (clock_run rs c) \<and>
         (\<forall>v \<in> set (clock_run rs c). last c \<le> v \<and> v \<le> startTime c + maxForwardMs c)"
  using assms
proof (induction rs arbitrary: c)
  case Nil
  then show ?case by simp
next
  case (Cons r rs)
  obtain v c' where step: "clock_now r c = (v, c')" by (cases "clock_now r c")
  from clock_now_invariant [OF Cons.prems step]
  have inv: "last c \<le> v" "v \<le> startTime c + maxForwardMs c" "last c' = v"
    "startTime c' = startTime c" "maxForwardMs c' = maxForwardMs c"
    by simp_all
  have "0 \<le> maxForwardMs c'" "last c' \<le> startTime c' + maxForwardMs c'"
    using inv Cons.prems by simp_all
  from Cons.IH [OF this]
  have IH: "sorted (clock_run rs c')"
    "\<forall>w \<in> set (clock_run rs c'). v \<le> w \<and> w \<le> startTime c + maxForwardMs c"
    using inv by simp_all
  from step IH inv show ?case by auto
qed

text \<open>
  A clock created with a \<^verbatim>\<open>maxForwardMs\<close> that is not negative (the default is 3600000)
  keeps the promise of the docstring for every sequence of wall-clock readings: the values
  returned by successive calls are non-decreasing, and each is at most
  \<^verbatim>\<open>startTime + maxForwardMs\<close>.
\<close>

lemma clock_monotone_bounded:
  assumes "0 \<le> maxForwardMs (createMonotonicNow optBackwards optForward t0)"
  shows "sorted (clock_run rs (createMonotonicNow optBackwards optForward t0)) \<and>
         (\<forall>v \<in> set (clock_run rs (createMonotonicNow optBackwards optForward t0)).
            v \<le> t0 + maxForwardMs (createMonotonicNow optBackwards optForward t0))"
proof -
  let ?c = "createMonotonicNow optBackwards optForward t0"
  have "last ?c \<le> startTime ?c + maxForwardMs ?c"
    using assms by (simp add: createMonotonicNow_def)
  from clock_run_bounds [OF assms this, of rs] show ?thesis
    by (simp add: createMonotonicNow_def)
qed

lemma clock_monotone_bounded_example:
  "0 \<le> maxForwardMs (createMonotonicNow None None 1000) \<and>
   clock_run [2000, 500, 1990, 9000000, 1000, 2500] (createMonotonicNow None None 1000) =
     [2000, 2000, 2000, 3601000, 3601000, 3601000] \<and>
   sorted (clock_run [2000, 500, 1990, 9000000, 1000, 2500] (createMonotonicNow None None 1000)) \<and>
   list_all (\<lambda>v. v \<le> 1000 + 3600000)
     (clock_run [2000, 500, 1990, 9000000, 1000, 2500] (createMonotonicNow None None 1000))"
proof -
  have h: "0 \<le> maxForwardMs (createMonotonicNow None None 1000)"
    by (simp add: createMonotonicNow_def)
  have e: "clock_run [2000, 500, 1990, 9000000, 1000, 2500] (createMonotonicNow None None 1000) =
     [2000, 2000, 2000, 3601000, 3601000, 3601000]"
    by (simp add: createMonotonicNow_def clock_now_def Let_def)
  have m: "maxForwardMs (createMonotonicNow None None 1000) = 3600000"
    by (simp add: createMonotonicNow_def)
  from clock_monotone_bounded [OF h, of "[2000, 500, 1990, 9000000, 1000, 2500]"] h e m
  show ?thesis by (simp add: list_all_iff)
qed

text \<open>
  With a negative \<^verbatim>\<open>maxForwardMs\<close> the limit \<^verbatim>\<open>startTime + maxForwardMs\<close> lies below the
  initial \<^verbatim>\<open>last\<close>: the first reading above the limit makes the forward-jump branch store
  the limit, which is less than a value already returned.
\<close>

lemma clock_negative_forward_general:
  assumes "mf < 0"
  shows "clock_run [t0 + mf, t0] (createMonotonicNow optBackwards (Some mf) t0) = [t0, t0 + mf]"
  using assms by (simp add: createMonotonicNow_def clock_now_def Let_def split: option.splits)

text \<open>
  Claim C2 says that for every clock created by \<^verbatim>\<open>createMonotonicNow\<close> and every sequence
  of readings the returned values never decrease and never exceed
  \<^verbatim>\<open>startTime + maxForwardMs\<close>, as the docstring of the function promises ("never goes
  backwards"). The code breaks this for a clock created at 1000 with \<^verbatim>\<open>maxForwardMs = -5\<close>:
  for the readings 990 and 1000 it returns 1000 and then 995.
\<close>

theorem clock_negative_forward_goes_backwards:
  "clock_run [990, 1000] (createMonotonicNow None (Some (- 5)) 1000) = [1000, 995] \<and>
   \<not> sorted (clock_run [990, 1000] (createMonotonicNow None (Some (- 5)) 1000))"
  by (simp add: createMonotonicNow_def clock_now_def Let_def)


section \<open>The adapter\<close>

text \<open>
  The character class written with ranges is the set of 64 characters. A string that
  \<^verbatim>\<open>includes\<close> another holds all its characters, so an id made of class characters contains
  no dot, slash or backslash and passes \<^const>\<open>sanitizePathComponent\<close> unchanged.
\<close>

lemma id_char_alphabet: "id_char c \<longleftrightarrow> c \<in> id_alphabet"
  unfolding id_char_def id_alphabet_def
  by (cases c) (simp add: less_eq_char_def)

lemma id_regex_test_alphabet: "id_regex_test s \<longleftrightarrow> s \<noteq> [] \<and> set s \<subseteq> id_alphabet"
  by (auto simp: id_regex_test_def list_all_iff id_char_alphabet)

lemma validateMetaId_iff:
  "validateMetaId v \<longleftrightarrow>
     (\<exists>s. v = JStr s \<and> 1 \<le> length s \<and> length s \<le> 255 \<and> set s \<subseteq> id_alphabet)"
  by (cases v) (auto simp: validateMetaId_def id_regex_test_alphabet Suc_le_eq)

lemma str_includes_subset: "str_includes s sub \<Longrightarrow> set sub \<subseteq> set s"
proof (induction s)
  case Nil
  then show ?case by simp
next
  case (Cons c cs)
  from Cons.prems have "take (length sub) (c # cs) = sub \<or> str_includes cs sub" by simp
  then show ?case
  proof
    assume "take (length sub) (c # cs) = sub"
    then have "set sub = set (take (length sub) (c # cs))" by simp
    then show ?thesis using set_take_subset by fast
  next
    assume "str_includes cs sub"
    with Cons.IH show ?thesis by auto
  qed
qed

lemma forbidden_not_in_alphabet:
  "CHR ''.'' \<notin> id_alphabet" "CHR ''/'' \<notin> id_alphabet" "CHR 0x5C \<notin> id_alphabet"
  by (simp_all add: id_alphabet_def)

lemma whitespace_not_in_alphabet: "whitespace \<inter> id_alphabet = {}"
  by (simp add: whitespace_def id_alphabet_def)

lemma alphabet_no_traversal:
  assumes "set s \<subseteq> id_alphabet"
  shows "\<not> str_includes s ''..''" "\<not> str_includes s ''/''" "\<not> str_includes s [CHR 0x5C]"
  using assms forbidden_not_in_alphabet by (auto dest!: str_includes_subset)

lemma validateMetaId_sanitize:
  "validateMetaId (JStr s) \<Longrightarrow> sanitizePathComponent (JStr s) = Some s"
  by (auto simp: validateMetaId_iff sanitizePathComponent_def alphabet_no_traversal)

lemma sanitize_fails_validate_fails:
  "sanitizePathComponent v = None \<Longrightarrow> \<not> validateMetaId v"
proof
  assume none: "sanitizePathComponent v = None" and ok: "validateMetaId v"
  from ok obtain s where "v = JStr s" by (auto simp: validateMetaId_iff)
  with ok none validateMetaId_sanitize [of s] show False by simp
qed

text \<open>
  Claim C8. \<^const>\<open>validateMetaId\<close> is true exactly for a string of 1 to 255 characters, all
  of them from \<^verbatim>\<open>[A-Za-z0-9_-]\<close>. It rejects the empty string, every string of 256
  characters, and every string that contains \<^verbatim>\<open>..\<close>, a slash, a backslash or white space;
  it accepts every string of 1 to 255 characters of the class.
\<close>

theorem validateMetaId_characterised:
  "(validateMetaId v \<longleftrightarrow>
      (\<exists>s. v = JStr s \<and> 1 \<le> length s \<and> length s \<le> 255 \<and> set s \<subseteq> id_alphabet)) \<and>
   \<not> validateMetaId (JStr []) \<and>
   (length s = 256 \<longrightarrow> \<not> validateMetaId (JStr s)) \<and>
   (str_includes s ''..'' \<or> str_includes s ''/'' \<or> str_includes s [CHR 0x5C] \<or>
      set s \<inter> whitespace \<noteq> {} \<longrightarrow> \<not> validateMetaId (JStr s)) \<and>
   (1 \<le> length s \<and> length s \<le> 255 \<and> set s \<subseteq> id_alphabet \<longrightarrow> validateMetaId (JStr s))"
proof (intro conjI impI)
  show "validateMetaId v \<longleftrightarrow>
      (\<exists>s. v = JStr s \<and> 1 \<le> length s \<and> length s \<le> 255 \<and> set s \<subseteq> id_alphabet)"
    by (rule validateMetaId_iff)
next
  show "\<not> validateMetaId (JStr [])" by (simp add: validateMetaId_def)
next
  assume "length s = 256"
  then show "\<not> validateMetaId (JStr s)" by (simp add: validateMetaId_def)
next
  assume bad: "str_includes s ''..'' \<or> str_includes s ''/'' \<or> str_includes s [CHR 0x5C] \<or>
      set s \<inter> whitespace \<noteq> {}"
  show "\<not> validateMetaId (JStr s)"
  proof
    assume "validateMetaId (JStr s)"
    then have sub: "set s \<subseteq> id_alphabet" by (simp add: validateMetaId_iff)
    from alphabet_no_traversal [OF sub] bad have "set s \<inter> whitespace \<noteq> {}" by blast
    with sub whitespace_not_in_alphabet show False by blast
  qed
next
  assume "1 \<le> length s \<and> length s \<le> 255 \<and> set s \<subseteq> id_alphabet"
  then show "validateMetaId (JStr s)" by (simp add: validateMetaId_iff)
qed

theorem validateMetaId_characterised_witness:
  "validateMetaId (JStr ''valid-id_123'') \<and>
   \<not> validateMetaId (JStr []) \<and>
   length (replicate 256 (CHR ''a'')) = 256 \<and> \<not> validateMetaId (JStr (replicate 256 (CHR ''a''))) \<and>
   str_includes ''../etc/passwd'' ''..'' \<and> \<not> validateMetaId (JStr ''../etc/passwd'') \<and>
   set ''invalid id with spaces'' \<inter> whitespace \<noteq> {} \<and>
   \<not> validateMetaId (JStr ''invalid id with spaces'') \<and>
   \<not> validateMetaId (JNum (Num 7))"
proof -
  have a: "1 \<le> length ''valid-id_123'' \<and> length ''valid-id_123'' \<le> 255 \<and>
      set ''valid-id_123'' \<subseteq> id_alphabet"
    by (simp add: id_alphabet_def)
  have b: "length (replicate 256 (CHR ''a'')) = 256" by simp
  have c: "str_includes ''../etc/passwd'' ''..''" by simp
  have d: "set ''invalid id with spaces'' \<inter> whitespace \<noteq> {}"
    by (simp add: whitespace_def)
  have w1: "validateMetaId (JStr ''valid-id_123'')"
    using validateMetaId_characterised [of JNull "''valid-id_123''"] a by blast
  have w2: "\<not> validateMetaId (JStr [])"
    using validateMetaId_characterised [of JNull "[]"] by blast
  have w3: "\<not> validateMetaId (JStr (replicate 256 (CHR ''a'')))"
    using validateMetaId_characterised [of JNull "replicate 256 (CHR ''a'')"] b by blast
  have w4: "\<not> validateMetaId (JStr ''../etc/passwd'')"
    using validateMetaId_characterised [of JNull "''../etc/passwd''"] c by blast
  have w5: "\<not> validateMetaId (JStr ''invalid id with spaces'')"
    using validateMetaId_characterised [of JNull "''invalid id with spaces''"] d by blast
  have w6: "\<not> validateMetaId (JNum (Num 7))"
    using validateMetaId_characterised [of "JNum (Num 7)" "[]"] by blast
  from a b c d w1 w2 w3 w4 w5 w6 show ?thesis by blast
qed

text \<open>
  Claim C7, as stated, fails in its second half: \<^verbatim>\<open>saveMetaToHyperdrive\<close> checks the id
  with \<^const>\<open>validateMetaId\<close> before it sanitizes it. The id \<^verbatim>\<open>a.b\<close> and the file name
  \<^verbatim>\<open>meta.json\<close> both pass \<^const>\<open>sanitizePathComponent\<close>, but the call rejects and
  nothing is written.
\<close>

theorem saveMeta_rejects_unusual_id_counterexample:
  "sanitizePathComponent (meta_id (session ''a.b'' JUndefined JUndefined)) = Some ''a.b'' \<and>
   sanitizePathComponent (JStr ''meta.json'') = Some ''meta.json'' \<and>
   saveMetaToHyperdrive mem_ops (\<lambda>m. ''{}'') ''/sessions'' (JStr ''meta.json'')
     (session ''a.b'' JUndefined JUndefined) [] =
   (Some (Error (''Invalid meta.id: must be a non-empty string '' @
                 ''(max 255 chars, alphanumeric/hyphen/underscore only)'')), [])"
  by (simp add: saveMetaToHyperdrive_def sanitizePathComponent_def validateMetaId_def
      id_regex_test_def id_char_def less_eq_char_def session_def)

text \<open>
  Claim C7, amended. If the record's id fails sanitization or the id format check, the call
  rejects with the invalid-id error and the drive is untouched; if the id passes and the
  meta-file name fails sanitization, it rejects with the invalid-meta-file error and the
  drive is untouched; if the id passes the format check and the meta-file name passes
  sanitization, the call is \<^verbatim>\<open>drive.put\<close> of the serialized record at the path
  \<^verbatim>\<open>prefix/id/metaFile\<close>.
\<close>

theorem saveMeta_contract:
  "(sanitizePathComponent (meta_id m) = None \<or> \<not> validateMetaId (meta_id m) \<longrightarrow>
      saveMetaToHyperdrive drive stringify prefix metaFile m d =
        (Some (Error (''Invalid meta.id: must be a non-empty string '' @
                      ''(max 255 chars, alphanumeric/hyphen/underscore only)'')), d)) \<and>
   (validateMetaId (meta_id m) \<and> sanitizePathComponent metaFile = None \<longrightarrow>
      saveMetaToHyperdrive drive stringify prefix metaFile m d =
        (Some (Error ''Invalid metaFile''), d)) \<and>
   (meta_id m = JStr i \<and> validateMetaId (JStr i) \<and> sanitizePathComponent metaFile = Some f \<longrightarrow>
      saveMetaToHyperdrive drive stringify prefix metaFile m d =
        drive_put drive (prefix @ ''/'' @ i @ ''/'' @ f) (stringify m) d)"
proof (intro conjI impI)
  assume "sanitizePathComponent (meta_id m) = None \<or> \<not> validateMetaId (meta_id m)"
  then have "\<not> validateMetaId (meta_id m)"
    using sanitize_fails_validate_fails by blast
  then show "saveMetaToHyperdrive drive stringify prefix metaFile m d =
        (Some (Error (''Invalid meta.id: must be a non-empty string '' @
                      ''(max 255 chars, alphanumeric/hyphen/underscore only)'')), d)"
    by (simp add: saveMetaToHyperdrive_def)
next
  assume a: "validateMetaId (meta_id m) \<and> sanitizePathComponent metaFile = None"
  then obtain s where "meta_id m = JStr s" by (auto simp: validateMetaId_iff)
  with a validateMetaId_sanitize [of s]
  show "saveMetaToHyperdrive drive stringify prefix metaFile m d = (Some (Error ''Invalid metaFile''), d)"
    by (simp add: saveMetaToHyperdrive_def)
next
  assume a: "meta_id m = JStr i \<and> validateMetaId (JStr i) \<and> sanitizePathComponent metaFile = Some f"
  with validateMetaId_sanitize [of i]
  show "saveMetaToHyperdrive drive stringify prefix metaFile m d =
        drive_put drive (prefix @ ''/'' @ i @ ''/'' @ f) (stringify m) d"
    by (simp add: saveMetaToHyperdrive_def)
qed

theorem saveMeta_contract_witness:
  "sanitizePathComponent (meta_id (session ''../etc/passwd'' JUndefined JUndefined)) = None \<and>
   saveMetaToHyperdrive mem_ops (\<lambda>m. ''{}'') ''/sessions'' (JStr ''meta.json'')
     (session ''../etc/passwd'' JUndefined JUndefined) [] =
     (Some (Error (''Invalid meta.id: must be a non-empty string '' @
                   ''(max 255 chars, alphanumeric/hyphen/underscore only)'')), []) \<and>
   validateMetaId (meta_id (session ''s1'' JUndefined JUndefined)) \<and>
   sanitizePathComponent (JStr ''a/b'') = None \<and>
   saveMetaToHyperdrive mem_ops (\<lambda>m. ''{}'') ''/sessions'' (JStr ''a/b'')
     (session ''s1'' JUndefined JUndefined) [] = (Some (Error ''Invalid metaFile''), []) \<and>
   sanitizePathComponent (JStr ''meta.json'') = Some ''meta.json'' \<and>
   saveMetaToHyperdrive mem_ops (\<lambda>m. ''{}'') ''/sessions'' (JStr ''meta.json'')
     (session ''s1'' JUndefined JUndefined) [] = (None, [(''/sessions/s1/meta.json'', ''{}'')])"
proof -
  have h1: "sanitizePathComponent (meta_id (session ''../etc/passwd'' JUndefined JUndefined)) = None"
    by (simp add: sanitizePathComponent_def session_def)
  have h2: "validateMetaId (meta_id (session ''s1'' JUndefined JUndefined))"
    by (simp add: validateMetaId_def id_regex_test_def id_char_def less_eq_char_def session_def)
  have h3: "sanitizePathComponent (JStr ''a/b'') = None"
    by (simp add: sanitizePathComponent_def)
  have h4: "sanitizePathComponent (JStr ''meta.json'') = Some ''meta.json''"
    by (simp add: sanitizePathComponent_def)
  have h5: "meta_id (session ''s1'' JUndefined JUndefined) = JStr ''s1''"
    by (simp add: session_def)
  from saveMeta_contract [of "session ''../etc/passwd'' JUndefined JUndefined" mem_ops "\<lambda>m. ''{}''"
         "''/sessions''" "JStr ''meta.json''" "[]" "''x''" "''y''"]
       saveMeta_contract [of "session ''s1'' JUndefined JUndefined" mem_ops "\<lambda>m. ''{}''"
         "''/sessions''" "JStr ''a/b''" "[]" "''s1''" "''y''"]
       saveMeta_contract [of "session ''s1'' JUndefined JUndefined" mem_ops "\<lambda>m. ''{}''"
         "''/sessions''" "JStr ''meta.json''" "[]" "''s1''" "''meta.json''"]
       h1 h2 h3 h4 h5
  show ?thesis by (simp add: mem_ops_def)
qed

text \<open>
  Claim C10. For a record whose id fails \<^const>\<open>validateMetaId\<close>, the adapter's
  \<^verbatim>\<open>onExpire\<close> resolves without an error, leaves the drive as it was (no \<^verbatim>\<open>del\<close> is
  issued), and prints one warning that names the id.
\<close>

theorem onExpire_invalid_id_is_noop:
  "\<not> validateMetaId (meta_id m) \<longrightarrow>
     deleteFilesFromHyperdrive drive prefix filesToDelete m d = (None, d, [InvalidMetaId (meta_id m)])"
  by (simp add: deleteFilesFromHyperdrive_def)

theorem onExpire_invalid_id_is_noop_witness:
  "\<not> validateMetaId (meta_id (session ''../x'' JUndefined (JNum (Num 1)))) \<and>
   deleteFilesFromHyperdrive mem_ops ''/sessions'' [JStr ''meta.json'', JStr ''payload.txt'']
     (session ''../x'' JUndefined (JNum (Num 1)))
     [(''/sessions/../x/meta.json'', ''{}''), (''/sessions/s1/payload.txt'', ''hello'')] =
   (None, [(''/sessions/../x/meta.json'', ''{}''), (''/sessions/s1/payload.txt'', ''hello'')],
    [InvalidMetaId (JStr ''../x'')]) \<and>
   deleteFilesFromHyperdrive mem_ops ''/sessions'' [JStr ''meta.json'', JStr ''payload.txt'']
     (session ''s1'' JUndefined (JNum (Num 1)))
     [(''/sessions/s1/meta.json'', ''{}''), (''/sessions/s1/payload.txt'', ''hello'')] =
   (None, [], [])"
proof -
  have h: "\<not> validateMetaId (meta_id (session ''../x'' JUndefined (JNum (Num 1))))"
    by (simp add: validateMetaId_def id_regex_test_def id_char_def less_eq_char_def session_def)
  have v: "deleteFilesFromHyperdrive mem_ops ''/sessions'' [JStr ''meta.json'', JStr ''payload.txt'']
     (session ''s1'' JUndefined (JNum (Num 1)))
     [(''/sessions/s1/meta.json'', ''{}''), (''/sessions/s1/payload.txt'', ''hello'')] =
   (None, [], [])"
    by code_simp
  from onExpire_invalid_id_is_noop [of "session ''../x'' JUndefined (JNum (Num 1))" mem_ops
      "''/sessions''" "[JStr ''meta.json'', JStr ''payload.txt'']"
      "[(''/sessions/../x/meta.json'', ''{}''), (''/sessions/s1/payload.txt'', ''hello'')]"] h v
  show ?thesis by (simp add: session_def)
qed

end
